theory Spec2Isabelle
  imports Complex_Main
begin

section \<open>JavaScript values of a request body\<close>

text \<open>
  A JavaScript number is an IEEE double: a finite value, one of the two infinities, or NaN.
  The server only compares \<open>current\<close> with the literals \<open>11\<close>, \<open>0\<close> and \<open>12\<close>; a
  comparison of doubles is exact, so a finite double is modelled by the real number it
  denotes (\<open>-0\<close> and \<open>+0\<close> are the same real, as \<open>-0 === 0\<close> holds in JavaScript).
\<close>

datatype jsnum = Fin real | PosInf | NegInf | NaN

text \<open>\<open>a > b\<close> on numbers: false as soon as one side is NaN.\<close>

fun js_gt :: "jsnum \<Rightarrow> jsnum \<Rightarrow> bool" where
  "js_gt NaN _ = False"
| "js_gt _ NaN = False"
| "js_gt (Fin a) (Fin b) = (b < a)"
| "js_gt (Fin _) PosInf = False"
| "js_gt (Fin _) NegInf = True"
| "js_gt PosInf PosInf = False"
| "js_gt PosInf _ = True"
| "js_gt NegInf _ = False"

text \<open>\<open>a === b\<close> on numbers: NaN equals nothing, itself included.\<close>

fun js_strict_eq :: "jsnum \<Rightarrow> jsnum \<Rightarrow> bool" where
  "js_strict_eq NaN _ = False"
| "js_strict_eq _ NaN = False"
| "js_strict_eq (Fin a) (Fin b) = (a = b)"
| "js_strict_eq PosInf PosInf = True"
| "js_strict_eq NegInf NegInf = True"
| "js_strict_eq _ _ = False"

text \<open>\<open>a <= b\<close> on numbers: not the negation of \<open>a > b\<close>, since both are false on NaN.\<close>

fun js_le :: "jsnum \<Rightarrow> jsnum \<Rightarrow> bool" where
  "js_le NaN _ = False"
| "js_le _ NaN = False"
| "js_le a b = (js_gt b a \<or> js_strict_eq a b)"

text \<open>
  The value found under a key of the parsed JSON body. \<open>JUndefined\<close> is a missing key.
  \<open>JObject\<close> is a nested object or array; its flag tells whether converting it to a
  primitive value succeeds. The conversion raises a TypeError when no callable
  \<open>toString\<close> or \<open>valueOf\<close> gives a primitive, as for the JSON object
  \<open>{"toString": 1}\<close>. \<open>JSON.parse\<close> never yields NaN, but it does yield \<open>Infinity\<close>
  for a literal such as \<open>1e999\<close>.
\<close>

datatype jsval =
  JUndefined | JNull | JBool bool | JNumber jsnum | JString string | JObject bool

text \<open>\<open>typeof v === 'number'\<close>.\<close>

fun typeof_number :: "jsval \<Rightarrow> bool" where
  "typeof_number (JNumber _) = True"
| "typeof_number _ = False"

text \<open>
  Converting a value to a primitive, as \<open>new Date(v)\<close> and the interpolation \<open>${v}\<close> of
  a template do: whether it succeeds.
\<close>

fun to_primitive_ok :: "jsval \<Rightarrow> bool" where
  "to_primitive_ok (JObject ok) = ok"
| "to_primitive_ok _ = True"

text \<open>
  The fields of \<open>req.body\<close> that the handler reads. The field \<open>_id\<close> is named
  \<open>sensor_id\<close> here and the field \<open>power\<close> is named \<open>power_w\<close>.
\<close>

record sensor_data =
  sensor_id :: jsval
  voltage :: jsval
  current :: jsval
  power_w :: jsval
  timestamp :: jsval

section \<open>server.js: the alert state and the first revision of /send-alert\<close>

datatype alert_type = normal | short_circuit | low_current

text \<open>\<open>let lastAlertType = 'normal'\<close> (line 42).\<close>

definition initial_lastAlertType :: alert_type where
  "initial_lastAlertType = normal"

text \<open>Lines 97 to 103: the value of \<open>currentAlertType\<close> for a numeric \<open>current\<close>.\<close>

definition classify :: "jsnum \<Rightarrow> alert_type" where
  "classify c =
     (if js_gt c (Fin 11) then short_circuit
      else if js_strict_eq c (Fin 0) then low_current
      else normal)"

text \<open>
  Lines 105 to 115 on an already classified reading: whether the handler goes on to the
  mail (\<open>shouldNotify\<close>) and the value written to \<open>lastAlertType\<close>. Both branches write.
\<close>

definition gate :: "alert_type \<Rightarrow> alert_type \<Rightarrow> bool \<times> alert_type" where
  "gate lastAlertType currentAlertType =
     (if currentAlertType = normal \<or> currentAlertType = lastAlertType
      then (False, currentAlertType)
      else (True, currentAlertType))"

text \<open>
  Lines 97 to 115: the decision for one reading. The result is \<open>shouldNotify\<close>, the
  condition of the reading, and the new value of \<open>lastAlertType\<close>.
\<close>

definition decide :: "alert_type \<Rightarrow> jsnum \<Rightarrow> bool \<times> alert_type \<times> alert_type" where
  "decide lastAlertType c =
     (let currentAlertType = classify c;
          (shouldNotify, written) = gate lastAlertType currentAlertType
      in (shouldNotify, currentAlertType, written))"

text \<open>One \<open>decide\<close> call per reading, in order, threading \<open>lastAlertType\<close>.\<close>

fun feed :: "alert_type \<Rightarrow> jsnum list \<Rightarrow> (bool \<times> alert_type) list" where
  "feed s [] = []"
| "feed s (c # cs) =
     (case decide s c of (n, cond, s') \<Rightarrow> (n, cond) # feed s' cs)"

text \<open>The same over a sequence of conditions.\<close>

fun feed_conditions :: "alert_type \<Rightarrow> alert_type list \<Rightarrow> bool list" where
  "feed_conditions s [] = []"
| "feed_conditions s (k # ks) =
     (case gate s k of (n, s') \<Rightarrow> n # feed_conditions s' ks)"

section \<open>The handler as a trace of its actions\<close>

text \<open>
  The mail handed to \<open>transporter.sendMail\<close>: line 135 chooses the short circuit text
  for \<open>'short_circuit'\<close> and the low current text otherwise.
\<close>

datatype mail_options = ShortCircuitMail sensor_data | LowCurrentMail sensor_data

datatype reply =
    InvalidSensorData
  | NoNewAlert
  | AlertEmailSent alert_type
  | FailedToSendAlertEmail
  | WithinNormalLimits
  | AlertEmailSentPlain

datatype log_line =
    UnchangedOrNormal alert_type
  | NewAlertState alert_type alert_type
  | ErrorSendingEmail

text \<open>
  What one run of the handler does, in program order: a line on the console, a write to
  the module variable \<open>lastAlertType\<close>, a call of \<open>transporter.sendMail\<close>, and the HTTP
  response with its status.
\<close>

datatype event =
    ConsoleLog log_line
  | SetLastAlertType alert_type
  | SendMail mail_options
  | Respond nat reply

text \<open>The value of \<open>lastAlertType\<close> after a trace, from its value before.\<close>

fun write_event :: "alert_type \<Rightarrow> event \<Rightarrow> alert_type" where
  "write_event s (SetLastAlertType c) = c"
| "write_event s _ = s"

definition replay :: "alert_type \<Rightarrow> event list \<Rightarrow> alert_type" where
  "replay s tr = foldl write_event s tr"

fun is_send :: "event \<Rightarrow> bool" where
  "is_send (SendMail _) = True"
| "is_send _ = False"

fun is_respond :: "event \<Rightarrow> bool" where
  "is_respond (Respond _ _) = True"
| "is_respond _ = False"

definition dispatched :: "event list \<Rightarrow> bool" where
  "dispatched tr = (filter is_send tr \<noteq> [])"

definition responses :: "event list \<Rightarrow> event list" where
  "responses tr = filter is_respond tr"

text \<open>
  Lines 126 to 153. \<open>new Date(sensorData.timestamp)\<close> (line 126) and the interpolation of
  \<open>sensorData._id\<close> (lines 137 and 146) convert their value to a primitive and raise a
  TypeError when that fails; an invalid date only prints as \<open>Invalid Date\<close>.
  \<open>sensorData.current\<close> is a number here; \<open>.toFixed(1)\<close> on \<open>voltage\<close> or \<open>power\<close>
  raises a TypeError unless that field is a number too. \<open>None\<close> is a TypeError, which
  the \<open>catch\<close> of line 163 takes over.
\<close>

definition render :: "alert_type \<Rightarrow> sensor_data \<Rightarrow> mail_options option" where
  "render currentAlertType sensorData =
     (if to_primitive_ok (timestamp sensorData)
         \<and> typeof_number (voltage sensorData) \<and> typeof_number (power_w sensorData)
         \<and> to_primitive_ok (sensor_id sensorData)
      then Some (if currentAlertType = short_circuit
                 then ShortCircuitMail sensorData
                 else LowCurrentMail sensorData)
      else None)"

text \<open>Lines 163 to 169: the \<open>catch\<close> block.\<close>

definition catch_block :: "event list" where
  "catch_block = [ConsoleLog ErrorSendingEmail, Respond 500 FailedToSendAlertEmail]"

text \<open>
  What a run of the handler has reached when it gives up control: it has returned, or it
  is suspended at \<open>await transporter.sendMail(mailOptions)\<close> (line 156).
\<close>

datatype suspension = Returned | AwaitingSendMail alert_type

text \<open>
  Lines 89 to 156, up to the \<open>await\<close>: the part of the handler that runs without giving
  up control. \<open>None\<close> is a falsy body. The result is the decision taken (none when the
  request is rejected), the trace, and where the run stands.
\<close>

definition send_alert_sync ::
  "alert_type \<Rightarrow> sensor_data option \<Rightarrow> (bool \<times> alert_type) option \<times> event list \<times> suspension"
where
  "send_alert_sync lastAlertType body =
     (case body of
        None \<Rightarrow> (None, [Respond 400 InvalidSensorData], Returned)
      | Some sensorData \<Rightarrow>
          (case current sensorData of
             JNumber c \<Rightarrow>
               (case decide lastAlertType c of
                  (shouldNotify, currentAlertType, written) \<Rightarrow>
                    if \<not> shouldNotify
                    then (Some (shouldNotify, currentAlertType),
                          [ConsoleLog (UnchangedOrNormal currentAlertType),
                           SetLastAlertType written,
                           Respond 200 NoNewAlert],
                          Returned)
                    else
                      (case render currentAlertType sensorData of
                         None \<Rightarrow>
                           (Some (shouldNotify, currentAlertType),
                            [ConsoleLog (NewAlertState lastAlertType currentAlertType),
                             SetLastAlertType written] @ catch_block,
                            Returned)
                       | Some mailOptions \<Rightarrow>
                           (Some (shouldNotify, currentAlertType),
                            [ConsoleLog (NewAlertState lastAlertType currentAlertType),
                             SetLastAlertType written,
                             SendMail mailOptions],
                            AwaitingSendMail currentAlertType)))
           | _ \<Rightarrow> (None, [Respond 400 InvalidSensorData], Returned)))"

text \<open>
  Lines 156 to 169, after the \<open>await\<close>: the promise of \<open>sendMail\<close> was fulfilled
  (\<open>delivered\<close>) or rejected.
\<close>

definition send_alert_resume :: "bool \<Rightarrow> alert_type \<Rightarrow> event list" where
  "send_alert_resume delivered currentAlertType =
     (if delivered then [Respond 200 (AlertEmailSent currentAlertType)] else catch_block)"

text \<open>One whole run of the handler, with nothing else running in between.\<close>

definition send_alert :: "bool \<Rightarrow> alert_type \<Rightarrow> sensor_data option \<Rightarrow> event list" where
  "send_alert delivered lastAlertType body =
     (case send_alert_sync lastAlertType body of
        (_, tr, Returned) \<Rightarrow> tr
      | (_, tr, AwaitingSendMail c) \<Rightarrow> tr @ send_alert_resume delivered c)"

text \<open>The decision of a run; \<open>None\<close> when validation rejected the request.\<close>

definition decision :: "alert_type \<Rightarrow> sensor_data option \<Rightarrow> (bool \<times> alert_type) option" where
  "decision lastAlertType body = fst (send_alert_sync lastAlertType body)"

text \<open>Line 93: the request passes validation, with this numeric \<open>current\<close>.\<close>

fun valid_current :: "sensor_data option \<Rightarrow> jsnum option" where
  "valid_current None = None"
| "valid_current (Some sensorData) =
     (case current sensorData of JNumber c \<Rightarrow> Some c | _ \<Rightarrow> None)"

text \<open>
  The server over a sequence of requests, each with the outcome of its mail delivery,
  handled one after the other: the value of \<open>lastAlertType\<close> at the end.
\<close>

fun serve :: "alert_type \<Rightarrow> (bool \<times> sensor_data option) list \<Rightarrow> alert_type" where
  "serve s [] = s"
| "serve s ((delivered, body) # reqs) = serve (replay s (send_alert delivered s body)) reqs"

text \<open>The \<open>current\<close> of the last request of a sequence that passes validation.\<close>

fun last_processed :: "(bool \<times> sensor_data option) list \<Rightarrow> jsnum option" where
  "last_processed [] = None"
| "last_processed ((delivered, body) # reqs) =
     (case last_processed reqs of
        Some c \<Rightarrow> Some c
      | None \<Rightarrow> valid_current body)"

section \<open>server.js: the second revision of /send-alert\<close>

text \<open>
  Lines 270 to 377. This revision keeps no state: it returns early when
  \<open>sensorData.current <= 12\<close> and always writes the short circuit mail otherwise
  (lines 293 to 360, with the same conversions and the same \<open>.toFixed(1)\<close> calls).
\<close>

definition render_plain :: "sensor_data \<Rightarrow> mail_options option" where
  "render_plain sensorData =
     (if to_primitive_ok (timestamp sensorData)
         \<and> typeof_number (voltage sensorData) \<and> typeof_number (power_w sensorData)
         \<and> to_primitive_ok (sensor_id sensorData)
      then Some (ShortCircuitMail sensorData)
      else None)"

definition send_alert_plain :: "bool \<Rightarrow> sensor_data option \<Rightarrow> event list" where
  "send_alert_plain delivered body =
     (case body of
        None \<Rightarrow> [Respond 400 InvalidSensorData]
      | Some sensorData \<Rightarrow>
          (case current sensorData of
             JNumber c \<Rightarrow>
               if js_le c (Fin 12) then [Respond 200 WithinNormalLimits]
               else
                 (case render_plain sensorData of
                    None \<Rightarrow> catch_block
                  | Some mailOptions \<Rightarrow>
                      SendMail mailOptions #
                        (if delivered then [Respond 200 AlertEmailSentPlain] else catch_block))
           | _ \<Rightarrow> [Respond 400 InvalidSensorData]))"

text \<open>A request body with three finite numbers and no other key.\<close>

definition reading :: "real \<Rightarrow> real \<Rightarrow> real \<Rightarrow> sensor_data option" where
  "reading v c p =
     Some \<lparr>sensor_id = JUndefined, voltage = JNumber (Fin v), current = JNumber (Fin c),
           power_w = JNumber (Fin p), timestamp = JUndefined\<rparr>"

text \<open>The traces of a sequence of requests handled one after the other.\<close>

fun traces :: "alert_type \<Rightarrow> (bool \<times> sensor_data option) list \<Rightarrow> event list list" where
  "traces s [] = []"
| "traces s ((delivered, body) # reqs) =
     send_alert delivered s body # traces (replay s (send_alert delivered s body)) reqs"

text \<open>The positions, counted from \<open>i\<close>, at which a list of flags holds.\<close>

fun positions_from :: "nat \<Rightarrow> bool list \<Rightarrow> nat list" where
  "positions_from i [] = []"
| "positions_from i (b # bs) = (if b then [i] else []) @ positions_from (i + 1) bs"

text \<open>\<open>Number.isFinite\<close> on a value of the body.\<close>

fun finite_number :: "jsval \<Rightarrow> bool" where
  "finite_number (JNumber (Fin _)) = True"
| "finite_number _ = False"

section \<open>App.tsx: the polling client\<close>

text \<open>
  The interface \<open>SensorData\<close> of the client declares \<open>_id\<close> as a string, its three
  measurements as numbers and \<open>timestamp\<close> as a date; \<open>sd_timestamp\<close> is the text that
  \<open>toISOString\<close> gives for that date.
\<close>

record SensorData =
  sd_id :: string
  sd_voltage :: jsnum
  sd_current :: jsnum
  sd_power :: jsnum
  sd_timestamp :: string

text \<open>
  \<open>JSON.stringify\<close> of a number, read back by the server's \<open>JSON.parse\<close>: a finite
  number comes back as it is, NaN and the infinities are written as \<open>null\<close>.
\<close>

fun json_number :: "jsnum \<Rightarrow> jsval" where
  "json_number (Fin r) = JNumber (Fin r)"
| "json_number _ = JNull"

text \<open>
  Lines 50 to 62: the body \<open>sendEmailAlert\<close> posts to /send-alert. The timestamp of a
  stored reading is a valid date (the schema sets it), so \<open>toISOString\<close> does not raise
  and the request is sent.
\<close>

definition sendEmailAlert :: "SensorData \<Rightarrow> sensor_data option" where
  "sendEmailAlert newData =
     Some \<lparr>sensor_id = JString (sd_id newData),
           voltage = json_number (sd_voltage newData),
           current = json_number (sd_current newData),
           power_w = json_number (sd_power newData),
           timestamp = JString (sd_timestamp newData)\<rparr>"

text \<open>Lines 133 to 141: the client's own \<open>currentAlertType\<close>.\<close>

definition client_alert_type :: "SensorData \<Rightarrow> alert_type" where
  "client_alert_type newData =
     (let shortCircuitDetected = js_gt (sd_current newData) (Fin 11);
          lowCurrentDetected = js_strict_eq (sd_current newData) (Fin 0)
      in if shortCircuitDetected then short_circuit
         else if lowCurrentDetected then low_current
         else normal)"

text \<open>
  Lines 132 to 175 of \<open>fetchData\<close> for one fetched reading: the request posted to the
  server, if any, and the new value of \<open>lastAlertTypeRef.current\<close>.
\<close>

definition fetchData :: "alert_type \<Rightarrow> SensorData \<Rightarrow> sensor_data option option \<times> alert_type" where
  "fetchData lastAlertTypeRef newData =
     (let currentAlertType = client_alert_type newData
      in (if currentAlertType \<noteq> normal \<and> currentAlertType \<noteq> lastAlertTypeRef
          then Some (sendEmailAlert newData)
          else None,
          currentAlertType))"

text \<open>
  Client and server together for one polling cycle. The state is the pair of
  \<open>lastAlertTypeRef.current\<close> and the server's \<open>lastAlertType\<close>; a posted request is
  handled by the server before the next cycle. The result is the new state and the
  server's trace (empty when the client posts nothing).
\<close>

definition poll ::
  "bool \<Rightarrow> alert_type \<times> alert_type \<Rightarrow> SensorData \<Rightarrow> (alert_type \<times> alert_type) \<times> event list"
where
  "poll delivered st newData =
     (case fetchData (fst st) newData of
        (None, r) \<Rightarrow> ((r, snd st), [])
      | (Some body, r) \<Rightarrow>
          ((r, replay (snd st) (send_alert delivered (snd st) body)),
           send_alert delivered (snd st) body))"

fun poll_all ::
  "alert_type \<times> alert_type \<Rightarrow> (bool \<times> SensorData) list \<Rightarrow> (alert_type \<times> alert_type) \<times> event list list"
where
  "poll_all st [] = (st, [])"
| "poll_all st ((delivered, newData) # xs) =
     (case poll delivered st newData of
        (st', tr) \<Rightarrow> (case poll_all st' xs of (st'', trs) \<Rightarrow> (st'', tr # trs)))"

definition client_reading :: "string \<Rightarrow> string \<Rightarrow> real \<Rightarrow> real \<Rightarrow> real \<Rightarrow> SensorData" where
  "client_reading i t v c p =
     \<lparr>sd_id = i, sd_voltage = Fin v, sd_current = Fin c, sd_power = Fin p, sd_timestamp = t\<rparr>"

section \<open>Requests in flight at the same time\<close>

text \<open>
  Node runs a handler without interruption until it returns or reaches an \<open>await\<close>.
  The handler of /send-alert has a single \<open>await\<close>, at line 156, so a request is
  queued, or its handler has run up to that line or to a \<open>return\<close>. A step of the
  server starts the handler of any queued request, or settles the mail of any suspended
  one, either way.
\<close>

datatype task =
    Queued "sensor_data option"
  | Started "(bool \<times> alert_type) option" suspension

inductive step :: "alert_type \<times> task list \<Rightarrow> alert_type \<times> task list \<Rightarrow> bool" where
  start:
    "i < length ts \<Longrightarrow> ts ! i = Queued body \<Longrightarrow>
     send_alert_sync s body = (d, tr, u) \<Longrightarrow>
     step (s, ts) (replay s tr, ts[i := Started d u])"
| settle:
    "i < length ts \<Longrightarrow> ts ! i = Started d (AwaitingSendMail c) \<Longrightarrow>
     step (s, ts) (replay s (send_alert_resume delivered c), ts[i := Started d Returned])"

text \<open>
  The configurations that two requests for the same fault condition \<open>k\<close> can reach from
  the state \<open>normal\<close>: the first handler to start takes the decision to notify, the
  other one finds \<open>lastAlertType\<close> already at \<open>k\<close>.
\<close>

fun race_inv :: "alert_type \<Rightarrow> sensor_data option \<Rightarrow> sensor_data option \<Rightarrow>
    alert_type \<times> task list \<Rightarrow> bool" where
  "race_inv k b1 b2 (s, [Queued x, Queued y]) = (s = normal \<and> x = b1 \<and> y = b2)"
| "race_inv k b1 b2 (s, [Started d u, Queued y]) = (s = k \<and> d = Some (True, k) \<and> y = b2)"
| "race_inv k b1 b2 (s, [Queued x, Started d u]) = (s = k \<and> x = b1 \<and> d = Some (True, k))"
| "race_inv k b1 b2 (s, [Started d1 u1, Started d2 u2]) =
     (s = k \<and> ((d1 = Some (True, k) \<and> d2 = Some (False, k))
              \<or> (d1 = Some (False, k) \<and> d2 = Some (True, k))))"
| "race_inv k b1 b2 (s, ts) = False"

section \<open>Facts about the handler\<close>

lemma classify_Fin:
  "classify (Fin r) = (if 11 < r then short_circuit else if r = 0 then low_current else normal)"
  by (simp add: classify_def)

lemma decide_eq: "decide s c = (classify c \<noteq> normal \<and> classify c \<noteq> s, classify c, classify c)"
  by (simp add: decide_def gate_def Let_def)

lemma feed_feed_conditions: "map fst (feed s cs) = feed_conditions s (map classify cs)"
  by (induction cs arbitrary: s) (simp_all add: decide_eq gate_def)

lemma sync_invalid:
  "valid_current body = None \<Longrightarrow>
   send_alert_sync s body = (None, [Respond 400 InvalidSensorData], Returned)"
  by (cases body) (auto simp: send_alert_sync_def split: jsval.splits)

lemma sync_valid:
  "valid_current body = Some c \<Longrightarrow>
   send_alert_sync s body =
     (if classify c = normal \<or> classify c = s
      then (Some (False, classify c),
            [ConsoleLog (UnchangedOrNormal (classify c)), SetLastAlertType (classify c),
             Respond 200 NoNewAlert], Returned)
      else (case render (classify c) (the body) of
              None \<Rightarrow> (Some (True, classify c),
                         [ConsoleLog (NewAlertState s (classify c)),
                          SetLastAlertType (classify c)] @ catch_block, Returned)
            | Some m \<Rightarrow> (Some (True, classify c),
                         [ConsoleLog (NewAlertState s (classify c)),
                          SetLastAlertType (classify c), SendMail m],
                         AwaitingSendMail (classify c))))"
  by (cases body) (auto simp: send_alert_sync_def decide_eq split: jsval.splits option.splits)

lemma replay_sync:
  "send_alert_sync s body = (d, tr, u) \<Longrightarrow>
   replay s tr = (case valid_current body of None \<Rightarrow> s | Some c \<Rightarrow> classify c)"
  by (cases "valid_current body")
     (auto simp: sync_invalid sync_valid replay_def catch_block_def split: if_splits option.splits)

lemma replay_resume: "replay s (send_alert_resume delivered c) = s"
  by (simp add: send_alert_resume_def replay_def catch_block_def)

lemma replay_append: "replay s (xs @ ys) = replay (replay s xs) ys"
  by (simp add: replay_def)

lemma replay_send_alert:
  "replay s (send_alert delivered s body) =
     (case valid_current body of None \<Rightarrow> s | Some c \<Rightarrow> classify c)"
proof -
  obtain d tr u where h: "send_alert_sync s body = (d, tr, u)"
    by (cases "send_alert_sync s body") auto
  have r: "replay s tr = (case valid_current body of None \<Rightarrow> s | Some c \<Rightarrow> classify c)"
    using h by (rule replay_sync)
  show ?thesis
  proof (cases u)
    case Returned
    then show ?thesis using h r by (simp add: send_alert_def)
  next
    case (AwaitingSendMail k)
    then show ?thesis using h r by (simp add: send_alert_def replay_append replay_resume)
  qed
qed

lemma serve_last_processed:
  "serve s reqs = (case last_processed reqs of None \<Rightarrow> s | Some c \<Rightarrow> classify c)"
proof (induction reqs arbitrary: s)
  case Nil
  then show ?case by simp
next
  case (Cons q reqs)
  obtain delivered body where q: "q = (delivered, body)" by (cases q) auto
  show ?case
    using Cons.IH [of "replay s (send_alert delivered s body)"]
    by (simp add: q replay_send_alert split: option.splits)
qed

lemma decision_eq:
  "decision s body = map_option (\<lambda>c. (fst (decide s c), classify c)) (valid_current body)"
  by (cases "valid_current body")
     (auto simp: decision_def sync_invalid sync_valid decide_eq split: option.splits)

lemma responses_send_alert_invalid:
  "valid_current body = None \<Longrightarrow> send_alert delivered s body = [Respond 400 InvalidSensorData]"
  by (simp add: send_alert_def sync_invalid)

lemma valid_current_None_iff:
  "valid_current body = None \<longleftrightarrow> (body = None \<or> \<not> typeof_number (current (the body)))"
  by (cases body) (auto split: jsval.splits)

lemma send_alert_valid:
  "valid_current body = Some c \<Longrightarrow>
   send_alert delivered s body =
     (if classify c = normal \<or> classify c = s
      then [ConsoleLog (UnchangedOrNormal (classify c)), SetLastAlertType (classify c),
            Respond 200 NoNewAlert]
      else (case render (classify c) (the body) of
              None \<Rightarrow> [ConsoleLog (NewAlertState s (classify c)),
                         SetLastAlertType (classify c),
                         ConsoleLog ErrorSendingEmail, Respond 500 FailedToSendAlertEmail]
            | Some m \<Rightarrow> [ConsoleLog (NewAlertState s (classify c)),
                         SetLastAlertType (classify c), SendMail m] @
                         (if delivered then [Respond 200 (AlertEmailSent (classify c))]
                          else [ConsoleLog ErrorSendingEmail, Respond 500 FailedToSendAlertEmail])))"
  by (simp add: send_alert_def sync_valid send_alert_resume_def catch_block_def
      split: option.splits)

text \<open>
  A body whose \<open>_id\<close> cannot be converted to a primitive, such as \<open>{"toString": 1}\<close>:
  both revisions end in the \<open>catch\<close> block without a call of \<open>sendMail\<close>, the first
  one after its write.
\<close>

lemma send_alert_type_error:
  "send_alert delivered normal
     (Some \<lparr>sensor_id = JObject False, voltage = JNumber (Fin 230), current = JNumber (Fin 13),
            power_w = JNumber (Fin 2990), timestamp = JString ''2025-10-01T08:00:00.000Z''\<rparr>)
   = [ConsoleLog (NewAlertState normal short_circuit), SetLastAlertType short_circuit,
      ConsoleLog ErrorSendingEmail, Respond 500 FailedToSendAlertEmail]"
  by (simp add: send_alert_def send_alert_sync_def decide_eq classify_Fin render_def
      catch_block_def)

lemma send_alert_plain_type_error:
  "send_alert_plain delivered
     (Some \<lparr>sensor_id = JObject False, voltage = JNumber (Fin 230), current = JNumber (Fin 13),
            power_w = JNumber (Fin 2990), timestamp = JString ''2025-10-01T08:00:00.000Z''\<rparr>)
   = [ConsoleLog ErrorSendingEmail, Respond 500 FailedToSendAlertEmail]"
  by (simp add: send_alert_plain_def render_plain_def catch_block_def)

section \<open>Facts about the client and about requests in flight\<close>

lemma client_alert_type_eq: "client_alert_type x = classify (sd_current x)"
  by (simp add: client_alert_type_def classify_def)

lemma valid_current_sendEmailAlert:
  "valid_current (sendEmailAlert x)
     = (case sd_current x of Fin r \<Rightarrow> Some (Fin r) | _ \<Rightarrow> None)"
  by (cases "sd_current x") (simp_all add: sendEmailAlert_def)

lemma poll_server_state:
  "snd (fst (poll delivered st x)) = snd st
   \<or> (snd (fst (poll delivered st x)) = classify (sd_current x)
       \<and> classify (sd_current x) \<noteq> normal)"
  by (cases "sd_current x")
     (auto simp: poll_def fetchData_def client_alert_type_eq replay_send_alert
        valid_current_sendEmailAlert Let_def)

lemma poll_keeps_fault: "snd st \<noteq> normal \<Longrightarrow> snd (fst (poll delivered st x)) \<noteq> normal"
  using poll_server_state [of delivered st x] by auto

lemma poll_all_keeps_fault: "snd st \<noteq> normal \<Longrightarrow> snd (fst (poll_all st xs)) \<noteq> normal"
proof (induction xs arbitrary: st)
  case Nil
  then show ?case by simp
next
  case (Cons q xs)
  obtain delivered x where q: "q = (delivered, x)" by (cases q) auto
  have "snd (fst (poll delivered st x)) \<noteq> normal"
    using Cons.prems by (rule poll_keeps_fault)
  then have "snd (fst (poll_all (fst (poll delivered st x)) xs)) \<noteq> normal"
    by (rule Cons.IH)
  then show ?case
    by (auto simp: q split: prod.splits)
qed

lemma valid_current_client_reading:
  "valid_current (sendEmailAlert (client_reading i t v c p)) = Some (Fin c)"
  by (simp add: sendEmailAlert_def client_reading_def)

lemma render_client_reading:
  "render k (the (sendEmailAlert (client_reading i t v c p))) \<noteq> None"
  by (simp add: sendEmailAlert_def client_reading_def render_def)

lemma poll_client_reading:
  "poll delivered (r, s) (client_reading i t v c p) =
     (if classify (Fin c) \<noteq> normal \<and> classify (Fin c) \<noteq> r
      then ((classify (Fin c), classify (Fin c)),
            send_alert delivered s (sendEmailAlert (client_reading i t v c p)))
      else ((classify (Fin c), s), []))"
  by (simp add: poll_def fetchData_def client_alert_type_eq Let_def replay_send_alert
      valid_current_client_reading)
    (simp add: client_reading_def)

lemma sync_decision:
  "send_alert_sync s body = (d, tr, u) \<Longrightarrow> valid_current body = Some c \<Longrightarrow>
   d = Some (classify c \<noteq> normal \<and> classify c \<noteq> s, classify c) \<and> replay s tr = classify c"
  using decision_eq [of s body] replay_sync [of s body d tr u]
  by (simp add: decision_def decide_eq)

lemma step_pair_cases:
  assumes "step (s, [a, b]) cfg'"
  shows "(\<exists>body d tr u. a = Queued body \<and> send_alert_sync s body = (d, tr, u)
            \<and> cfg' = (replay s tr, [Started d u, b]))
       \<or> (\<exists>body d tr u. b = Queued body \<and> send_alert_sync s body = (d, tr, u)
            \<and> cfg' = (replay s tr, [a, Started d u]))
       \<or> (\<exists>d c. a = Started d (AwaitingSendMail c) \<and> cfg' = (s, [Started d Returned, b]))
       \<or> (\<exists>d c. b = Started d (AwaitingSendMail c) \<and> cfg' = (s, [a, Started d Returned]))"
  using assms
proof cases
  case (start i body d tr u)
  then have "i = 0 \<or> i = 1" by auto
  then show ?thesis
  proof
    assume "i = 0"
    then show ?thesis using start by simp
  next
    assume "i = 1"
    then show ?thesis using start by simp
  qed
next
  case (settle i d c delivered)
  then have "i = 0 \<or> i = 1" by auto
  then show ?thesis
  proof
    assume "i = 0"
    then show ?thesis using settle by (simp add: replay_resume)
  next
    assume "i = 1"
    then show ?thesis using settle by (simp add: replay_resume)
  qed
qed

lemma race_inv_pair: "race_inv k b1 b2 (s, ts) \<Longrightarrow> \<exists>a b. ts = [a, b]"
  by (induction k b1 b2 "(s, ts)" rule: race_inv.induct) auto

lemma race_inv_step:
  assumes v: "valid_current b1 = Some c1" "valid_current b2 = Some c2"
    and k: "classify c1 = k" "classify c2 = k" "k \<noteq> normal"
    and st: "step cfg cfg'"
    and inv: "race_inv k b1 b2 cfg"
  shows "race_inv k b1 b2 cfg'"
proof -
  obtain s ts where cfg: "cfg = (s, ts)" by (cases cfg) auto
  obtain a b where ts: "ts = [a, b]" using inv race_inv_pair cfg by blast
  note sd1 = sync_decision [OF _ v(1), unfolded k]
  note sd2 = sync_decision [OF _ v(2), unfolded k]
  from step_pair_cases [OF st [unfolded cfg ts]] show ?thesis
  proof (elim disjE exE conjE)
    fix body d tr u
    assume a: "a = Queued body" and sy: "send_alert_sync s body = (d, tr, u)"
      and c: "cfg' = (replay s tr, [Started d u, b])"
    have body: "body = b1" using inv a cfg ts by (cases b) simp_all
    show ?thesis
      using inv sd1 [OF sy [unfolded body]] k(3) unfolding cfg ts a c
      by (cases b) auto
  next
    fix body d tr u
    assume b: "b = Queued body" and sy: "send_alert_sync s body = (d, tr, u)"
      and c: "cfg' = (replay s tr, [a, Started d u])"
    have body: "body = b2" using inv b cfg ts by (cases a) simp_all
    show ?thesis
      using inv sd2 [OF sy [unfolded body]] k(3) unfolding cfg ts b c
      by (cases a) auto
  next
    fix d c
    assume a: "a = Started d (AwaitingSendMail c)" and c: "cfg' = (s, [Started d Returned, b])"
    show ?thesis
      using inv unfolding cfg ts a c by (cases b) simp_all
  next
    fix d c
    assume b: "b = Started d (AwaitingSendMail c)" and c: "cfg' = (s, [a, Started d Returned])"
    show ?thesis
      using inv unfolding cfg ts b c by (cases a) simp_all
  qed
qed

lemma race_inv_steps:
  assumes v: "valid_current b1 = Some c1" "valid_current b2 = Some c2"
    and k: "classify c1 = k" "classify c2 = k" "k \<noteq> normal"
    and st: "step\<^sup>*\<^sup>* (normal, [Queued b1, Queued b2]) cfg"
  shows "race_inv k b1 b2 cfg"
  using st
proof (induction rule: rtranclp_induct)
  case base
  show ?case by simp
next
  case (step y z)
  show ?case using v k step.hyps(2) step.IH by (rule race_inv_step)
qed

section \<open>The classifier\<close>

text \<open>
  C2. The classification of a finite \<open>current\<close> is total and has exact boundaries: above
  \<open>11\<close> it is a short circuit, at exactly \<open>0\<close> it is low current, and anything else is
  normal. So \<open>11\<close> is normal, \<open>11.0001\<close> is a short circuit, \<open>0.0001\<close> is normal, and
  every value in the interval from \<open>0\<close> (excluded) to \<open>11\<close> (included) is normal. The
  client computes the same classification.
\<close>

theorem classify_boundaries:
  "classify (Fin r) = (if 11 < r then short_circuit else if r = 0 then low_current else normal)
   \<and> classify (Fin 11) = normal
   \<and> classify (Fin (110001 / 10000)) = short_circuit
   \<and> classify (Fin 0) = low_current
   \<and> classify (Fin (1 / 10000)) = normal
   \<and> (\<forall>x. 0 < x \<and> x \<le> 11 \<longrightarrow> classify (Fin x) = normal)
   \<and> client_alert_type
         \<lparr>sd_id = i, sd_voltage = v, sd_current = c, sd_power = p, sd_timestamp = t\<rparr>
       = classify c"
  by (simp add: classify_def client_alert_type_def)

theorem classify_boundaries_witness:
  "(0::real) < 5 \<and> (5::real) \<le> 11 \<and> classify (Fin 5) = normal \<and> classify (Fin 12) = short_circuit"
  using classify_boundaries [of 12] by simp

section \<open>The gatekeeper\<close>

text \<open>
  C1. The state starts as \<open>normal\<close>. A decision on a reading of condition \<open>k\<close> in state
  \<open>l\<close> is the edge from \<open>l\<close> to \<open>k\<close>: it leaves the state at \<open>k\<close>, and it notifies
  exactly on the four edges normal to short circuit, normal to low current, short circuit
  to low current and low current to short circuit; every self-loop and every edge into
  \<open>normal\<close> is silent. So a sequence of readings is decided edge by edge, each reading
  against the condition of the one before it. The conditions normal, short circuit, low
  current in this order give no, yes, yes, and a fault that repeats notifies once.
\<close>

theorem gate_edges:
  "initial_lastAlertType = normal
   \<and> gate l k = ((l, k) \<in> {(normal, short_circuit), (normal, low_current),
                          (short_circuit, low_current), (low_current, short_circuit)}, k)
   \<and> decide l c = ((l, classify c) \<in> {(normal, short_circuit), (normal, low_current),
                          (short_circuit, low_current), (low_current, short_circuit)},
                    classify c, classify c)
   \<and> fst (gate l k) = ((l, k) \<in> {(normal, short_circuit), (normal, low_current),
                              (short_circuit, low_current), (low_current, short_circuit)})
   \<and> fst (decide l c) = ((l, classify c) \<in> {(normal, short_circuit), (normal, low_current),
                              (short_circuit, low_current), (low_current, short_circuit)})
   \<and> feed_conditions l (k # ks)
       = ((l, k) \<in> {(normal, short_circuit), (normal, low_current),
                     (short_circuit, low_current), (low_current, short_circuit)})
         # feed_conditions k ks
   \<and> replay l (send_alert delivered l (reading v r p)) = classify (Fin r)
   \<and> decision l (reading v r p)
       = Some ((l, classify (Fin r)) \<in> {(normal, short_circuit), (normal, low_current),
                     (short_circuit, low_current), (low_current, short_circuit)},
               classify (Fin r))
   \<and> feed_conditions initial_lastAlertType [normal, short_circuit, low_current] = [False, True, True]
   \<and> map fst (feed initial_lastAlertType [Fin 5, Fin 12, Fin 0]) = [False, True, True]
   \<and> feed_conditions initial_lastAlertType
        [short_circuit, short_circuit, low_current, low_current, normal, normal, low_current]
       = [True, False, True, False, False, False, True]
   \<and> feed initial_lastAlertType [Fin 12, Fin 13, Fin 0, Fin 0, Fin 5]
       = [(True, short_circuit), (False, short_circuit), (True, low_current),
          (False, low_current), (False, normal)]"
proof -
  let ?E = "{(normal, short_circuit), (normal, low_current),
             (short_circuit, low_current), (low_current, short_circuit)}"
  have g: "\<And>a b. gate a b = ((a, b) \<in> ?E, b)"
  proof -
    fix a b show "gate a b = ((a, b) \<in> ?E, b)"
      by (cases a; cases b; simp add: gate_def)
  qed
  have d: "\<And>a x. decide a x = ((a, classify x) \<in> ?E, classify x, classify x)"
    by (simp add: decide_def Let_def g)
  have v: "valid_current (reading v r p) = Some (Fin r)"
    by (simp add: reading_def)
  have i: "initial_lastAlertType = normal"
    by (simp add: initial_lastAlertType_def)
  have f: "feed_conditions l (k # ks) = ((l, k) \<in> ?E) # feed_conditions k ks"
    by (simp add: g)
  have rp: "replay l (send_alert delivered l (reading v r p)) = classify (Fin r)"
    by (simp add: replay_send_alert v)
  have dc: "decision l (reading v r p) = Some ((l, classify (Fin r)) \<in> ?E, classify (Fin r))"
    by (simp add: decision_eq v d)
  have s1: "feed_conditions initial_lastAlertType [normal, short_circuit, low_current]
      = [False, True, True]"
    by (simp add: g i)
  have s2: "map fst (feed initial_lastAlertType [Fin 5, Fin 12, Fin 0]) = [False, True, True]"
    by (simp add: decide_eq classify_Fin i)
  have s3: "feed_conditions initial_lastAlertType
        [short_circuit, short_circuit, low_current, low_current, normal, normal, low_current]
       = [True, False, True, False, False, False, True]"
    by (simp add: g i)
  have s4: "feed initial_lastAlertType [Fin 12, Fin 13, Fin 0, Fin 0, Fin 5]
       = [(True, short_circuit), (False, short_circuit), (True, low_current),
          (False, low_current), (False, normal)]"
    by (simp add: decide_eq classify_Fin i)
  show ?thesis
    using i g [of l k] d [of l c] f rp dc s1 s2 s3 s4 by simp
qed

text \<open>
  C3. One decision per reading from the initial state: the conditions normal, short
  circuit (three times), normal, short circuit give no, yes, no, no, no, yes; and the
  currents 5, 5, 0, 0, 12, 5, 12 notify at positions 3 (low current), 5 (short circuit)
  and 7 (short circuit again), which are also the requests whose handler calls
  \<open>sendMail\<close>, whatever the other fields and the fate of each mail.
\<close>

theorem feed_sequences:
  "map fst (feed s cs) = feed_conditions s (map classify cs)
   \<and> feed_conditions initial_lastAlertType
        [normal, short_circuit, short_circuit, short_circuit, normal, short_circuit]
      = [False, True, False, False, False, True]
   \<and> feed initial_lastAlertType [Fin 5, Fin 5, Fin 0, Fin 0, Fin 12, Fin 5, Fin 12]
      = [(False, normal), (False, normal), (True, low_current), (False, low_current),
         (True, short_circuit), (False, normal), (True, short_circuit)]
   \<and> positions_from 1
        (map fst (feed initial_lastAlertType [Fin 5, Fin 5, Fin 0, Fin 0, Fin 12, Fin 5, Fin 12]))
      = [3, 5, 7]
   \<and> positions_from 1
        (map dispatched (traces initial_lastAlertType
           [(d1, reading v1 5 p1), (d2, reading v2 5 p2), (d3, reading v3 0 p3),
            (d4, reading v4 0 p4), (d5, reading v5 12 p5), (d6, reading v6 5 p6),
            (d7, reading v7 12 p7)]))
      = [3, 5, 7]"
proof (intro conjI)
  show "map fst (feed s cs) = feed_conditions s (map classify cs)"
    by (rule feed_feed_conditions)
  show "feed_conditions initial_lastAlertType
        [normal, short_circuit, short_circuit, short_circuit, normal, short_circuit]
      = [False, True, False, False, False, True]"
    by (simp add: gate_def initial_lastAlertType_def)
  show f: "feed initial_lastAlertType [Fin 5, Fin 5, Fin 0, Fin 0, Fin 12, Fin 5, Fin 12]
      = [(False, normal), (False, normal), (True, low_current), (False, low_current),
         (True, short_circuit), (False, normal), (True, short_circuit)]"
    by (simp add: decide_eq classify_Fin initial_lastAlertType_def)
  show "positions_from 1
        (map fst (feed initial_lastAlertType [Fin 5, Fin 5, Fin 0, Fin 0, Fin 12, Fin 5, Fin 12]))
      = [3, 5, 7]"
    unfolding f by simp
  have v: "\<And>a b c. valid_current (reading a b c) = Some (Fin b)"
    by (simp add: reading_def)
  have t: "\<And>a b c. the (reading a b c)
      = \<lparr>sensor_id = JUndefined, voltage = JNumber (Fin a), current = JNumber (Fin b),
          power_w = JNumber (Fin c), timestamp = JUndefined\<rparr>"
    by (simp add: reading_def)
  have dr: "\<And>d s a b c. dispatched (send_alert d s (reading a b c)) = fst (decide s (Fin b))"
    by (simp add: send_alert_def sync_valid [OF v] render_def t dispatched_def decide_eq
        send_alert_resume_def catch_block_def)
  have rr: "\<And>d s a b c. replay s (send_alert d s (reading a b c)) = classify (Fin b)"
    by (simp add: replay_send_alert v)
  show "positions_from 1
        (map dispatched (traces initial_lastAlertType
           [(d1, reading v1 5 p1), (d2, reading v2 5 p2), (d3, reading v3 0 p3),
            (d4, reading v4 0 p4), (d5, reading v5 12 p5), (d6, reading v6 5 p6),
            (d7, reading v7 12 p7)]))
      = [3, 5, 7]"
    by (simp add: dr rr decide_eq classify_Fin initial_lastAlertType_def)
qed

text \<open>
  C7. \<open>lastAlertType\<close> starts as \<open>normal\<close>. A request that passes validation leaves it
  equal to the classification of that request's \<open>current\<close>, whichever branch the handler
  takes and whether or not the mail goes out. So after any sequence of requests it is the
  classification of the last request that passed validation, and \<open>normal\<close> if none did.
\<close>

theorem lastAlertType_tracks_processed:
  "initial_lastAlertType = normal
   \<and> (valid_current body = Some c \<longrightarrow>
        replay s (send_alert delivered s body) = classify c
        \<and> decision s body = Some (fst (decide s c), classify c))
   \<and> serve initial_lastAlertType reqs
       = (case last_processed reqs of None \<Rightarrow> normal | Some x \<Rightarrow> classify x)"
  by (simp add: initial_lastAlertType_def replay_send_alert serve_last_processed decision_eq)

theorem lastAlertType_tracks_processed_witness:
  "valid_current (reading 230 12 2760) = Some (Fin 12)
   \<and> replay normal (send_alert False normal (reading 230 12 2760)) = short_circuit
   \<and> serve initial_lastAlertType
        [(True, reading 230 0 0), (True, None), (False, reading 230 12 2760),
         (True, Some \<lparr>sensor_id = JUndefined, voltage = JNumber (Fin 230), current = JString ''12'',
          power_w = JNull, timestamp = JUndefined\<rparr>)]
       = short_circuit"
proof -
  let ?reqs = "[(True, reading 230 0 0), (True, None), (False, reading 230 12 2760),
         (True, Some \<lparr>sensor_id = JUndefined, voltage = JNumber (Fin 230), current = JString ''12'',
          power_w = JNull, timestamp = JUndefined\<rparr>)]"
  have h: "valid_current (reading 230 12 2760) = Some (Fin 12)"
    by (simp add: reading_def)
  have c: "classify (Fin 12) = short_circuit"
    by (simp add: classify_Fin)
  have l: "last_processed ?reqs = Some (Fin 12)"
    by (simp add: reading_def)
  note t = lastAlertType_tracks_processed [of "reading 230 12 2760" "Fin 12" normal False ?reqs]
  have a: "replay normal (send_alert False normal (reading 230 12 2760)) = short_circuit"
    using t h c by simp
  have "serve initial_lastAlertType ?reqs
      = (case last_processed ?reqs of None \<Rightarrow> normal | Some x \<Rightarrow> classify x)"
    using t by blast
  then have b: "serve initial_lastAlertType ?reqs = short_circuit"
    by (simp only: l c option.case)
  show ?thesis using h a b by blast
qed

section \<open>Failures\<close>

text \<open>
  C6. When the decision was to notify and the mail fails, the caller gets status 500,
  \<open>lastAlertType\<close> holds the new condition exactly as after a successful mail (it is not
  put back), and the next decision notifies for every other fault condition and stays
  silent for the same one.
\<close>

theorem failed_dispatch_keeps_state:
  "decision s body = Some (True, k) \<longrightarrow>
     responses (send_alert False s body) = [Respond 500 FailedToSendAlertEmail]
     \<and> replay s (send_alert False s body) = k
     \<and> k \<noteq> s
     \<and> replay s (send_alert False s body) = replay s (send_alert True s body)
     \<and> fst (decide (replay s (send_alert False s body)) c')
         = (classify c' \<noteq> normal \<and> classify c' \<noteq> k)"
proof
  assume h: "decision s body = Some (True, k)"
  then obtain c where v: "valid_current body = Some c" and k: "k = classify c"
    and n: "classify c \<noteq> normal" "classify c \<noteq> s"
    by (auto simp: decision_eq decide_eq)
  have r: "\<And>d. replay s (send_alert d s body) = k"
    by (simp add: replay_send_alert v k)
  have "responses (send_alert False s body) = [Respond 500 FailedToSendAlertEmail]"
    using n by (simp add: send_alert_valid [OF v] responses_def split: option.splits)
  moreover have "k \<noteq> s" using n k by simp
  moreover have "fst (decide k c') = (classify c' \<noteq> normal \<and> classify c' \<noteq> k)"
    by (simp add: decide_eq)
  ultimately show "responses (send_alert False s body) = [Respond 500 FailedToSendAlertEmail]
     \<and> replay s (send_alert False s body) = k
     \<and> k \<noteq> s
     \<and> replay s (send_alert False s body) = replay s (send_alert True s body)
     \<and> fst (decide (replay s (send_alert False s body)) c')
         = (classify c' \<noteq> normal \<and> classify c' \<noteq> k)"
    by (simp add: r)
qed

theorem failed_dispatch_keeps_state_witness:
  "decision normal (reading 230 12 2760) = Some (True, short_circuit)
   \<and> responses (send_alert False normal (reading 230 12 2760))
       = [Respond 500 FailedToSendAlertEmail]
   \<and> replay normal (send_alert False normal (reading 230 12 2760)) = short_circuit
   \<and> fst (decide (replay normal (send_alert False normal (reading 230 12 2760))) (Fin 0))
   \<and> \<not> fst (decide (replay normal (send_alert False normal (reading 230 12 2760))) (Fin 12))"
proof -
  have h: "decision normal (reading 230 12 2760) = Some (True, short_circuit)"
    by (simp add: decision_eq reading_def decide_eq classify_Fin)
  have c: "classify (Fin 0) = low_current" "classify (Fin 12) = short_circuit"
    by (simp_all add: classify_Fin)
  note t = failed_dispatch_keeps_state [of normal "reading 230 12 2760" short_circuit]
  have a: "responses (send_alert False normal (reading 230 12 2760))
       = [Respond 500 FailedToSendAlertEmail]"
    and b: "replay normal (send_alert False normal (reading 230 12 2760)) = short_circuit"
    using t [of "Fin 0"] h by blast+
  have "fst (decide (replay normal (send_alert False normal (reading 230 12 2760))) (Fin 0))
         = (classify (Fin 0) \<noteq> normal \<and> classify (Fin 0) \<noteq> short_circuit)"
    using t [of "Fin 0"] h by blast
  then have d: "fst (decide (replay normal (send_alert False normal (reading 230 12 2760))) (Fin 0))"
    by (simp only: c) simp
  have "fst (decide (replay normal (send_alert False normal (reading 230 12 2760))) (Fin 12))
         = (classify (Fin 12) \<noteq> normal \<and> classify (Fin 12) \<noteq> short_circuit)"
    using t [of "Fin 12"] h by blast
  then have e: "\<not> fst (decide (replay normal (send_alert False normal (reading 230 12 2760))) (Fin 12))"
    by (simp only: c) simp
  show ?thesis using h a b d e by blast
qed

text \<open>
  C8 as stated fails. The check of line 93 is \<open>typeof sensorData.current !== 'number'\<close>,
  and \<open>Infinity\<close> is of type number: a body whose \<open>current\<close> is the JSON literal
  \<open>1e999\<close> passes validation, is classified as a short circuit, changes
  \<open>lastAlertType\<close> and is mailed.
\<close>

theorem non_finite_current_counterexample:
  "\<not> finite_number (JNumber PosInf)
   \<and> send_alert True normal
        (Some \<lparr>sensor_id = JUndefined, voltage = JNumber (Fin 230), current = JNumber PosInf,
          power_w = JNumber (Fin 0), timestamp = JUndefined\<rparr>)
      = [ConsoleLog (NewAlertState normal short_circuit),
         SetLastAlertType short_circuit,
         SendMail (ShortCircuitMail
           \<lparr>sensor_id = JUndefined, voltage = JNumber (Fin 230), current = JNumber PosInf,
          power_w = JNumber (Fin 0), timestamp = JUndefined\<rparr>),
         Respond 200 (AlertEmailSent short_circuit)]
   \<and> decision normal
        (Some \<lparr>sensor_id = JUndefined, voltage = JNumber (Fin 230), current = JNumber PosInf,
          power_w = JNumber (Fin 0), timestamp = JUndefined\<rparr>)
      = Some (True, short_circuit)
   \<and> replay normal (send_alert True normal
        (Some \<lparr>sensor_id = JUndefined, voltage = JNumber (Fin 230), current = JNumber PosInf,
          power_w = JNumber (Fin 0), timestamp = JUndefined\<rparr>))
      \<noteq> normal"
  by (simp add: send_alert_def send_alert_sync_def decide_eq classify_def render_def
      send_alert_resume_def decision_def replay_def)

text \<open>
  C8, amended. A request with a falsy body, or whose \<open>current\<close> is not of type number,
  is answered with status 400 and nothing else: no decision is taken and \<open>lastAlertType\<close>
  keeps its value.
\<close>

theorem non_number_current_rejected:
  "(body = None \<or> \<not> typeof_number (current (the body))) \<longrightarrow>
     send_alert delivered s body = [Respond 400 InvalidSensorData]
     \<and> decision s body = None
     \<and> replay s (send_alert delivered s body) = s"
  by (simp add: valid_current_None_iff [symmetric] responses_send_alert_invalid decision_eq
      replay_def)

theorem non_number_current_rejected_witness:
  "\<not> typeof_number (current (the (Some \<lparr>sensor_id = JUndefined, voltage = JNumber (Fin 230), current = JString ''12'',
          power_w = JNumber (Fin 2760), timestamp = JUndefined\<rparr>)))
   \<and> send_alert True low_current
        (Some \<lparr>sensor_id = JUndefined, voltage = JNumber (Fin 230), current = JString ''12'',
          power_w = JNumber (Fin 2760), timestamp = JUndefined\<rparr>)
      = [Respond 400 InvalidSensorData]
   \<and> replay low_current (send_alert True low_current
        (Some \<lparr>sensor_id = JUndefined, voltage = JNumber (Fin 230), current = JString ''12'',
          power_w = JNumber (Fin 2760), timestamp = JUndefined\<rparr>))
      = low_current"
  using non_number_current_rejected [of
      "Some \<lparr>sensor_id = JUndefined, voltage = JNumber (Fin 230), current = JString ''12'',
          power_w = JNumber (Fin 2760), timestamp = JUndefined\<rparr>"
      True low_current]
  by (simp add: replay_def)

section \<open>Order of the write and the mail\<close>




section \<open>The two revisions of /send-alert\<close>

text \<open>
  C9. The two revisions differ. For a \<open>current\<close> above 11 and up to 12, from a state other
  than short circuit, the first revision calls \<open>sendMail\<close> and the second does not; the
  same for a \<open>current\<close> of exactly 0 from a state other than low current. Above 12 with
  the state already at short circuit it is the other way round.
\<close>

theorem revisions_differ:
  "(11 < c \<and> c \<le> 12 \<and> s \<noteq> short_circuit \<longrightarrow>
      dispatched (send_alert delivered s (reading v c p))
      \<and> \<not> dispatched (send_alert_plain delivered (reading v c p)))
   \<and> (s \<noteq> low_current \<longrightarrow>
      dispatched (send_alert delivered s (reading v 0 p))
      \<and> \<not> dispatched (send_alert_plain delivered (reading v 0 p)))
   \<and> (12 < c \<longrightarrow>
      \<not> dispatched (send_alert delivered short_circuit (reading v c p))
      \<and> dispatched (send_alert_plain delivered (reading v c p)))
   \<and> dispatched (send_alert True initial_lastAlertType (reading 230 (23 / 2) 2645))
   \<and> \<not> dispatched (send_alert_plain True (reading 230 (23 / 2) 2645))
   \<and> send_alert_plain True (reading 230 (23 / 2) 2645) = [Respond 200 WithinNormalLimits]"
proof -
  have v: "\<And>a b c. valid_current (reading a b c) = Some (Fin b)"
    by (simp add: reading_def)
  have t: "\<And>a b c. the (reading a b c)
      = \<lparr>sensor_id = JUndefined, voltage = JNumber (Fin a), current = JNumber (Fin b),
          power_w = JNumber (Fin c), timestamp = JUndefined\<rparr>"
    by (simp add: reading_def)
  have dr: "\<And>d s a b c. dispatched (send_alert d s (reading a b c))
      = (classify (Fin b) \<noteq> normal \<and> classify (Fin b) \<noteq> s)"
    by (simp add: send_alert_valid [OF v] render_def t dispatched_def)
  have dp: "\<And>d a b c. dispatched (send_alert_plain d (reading a b c)) = (12 < b)"
    by (auto simp: send_alert_plain_def reading_def render_plain_def dispatched_def
        catch_block_def)
  have w: "send_alert_plain True (reading 230 (23 / 2) 2645) = [Respond 200 WithinNormalLimits]"
    by (simp add: send_alert_plain_def reading_def)
  have dw: "\<not> dispatched (send_alert_plain True (reading 230 (23 / 2) 2645))"
    by (simp add: dp)
  show ?thesis
    using w dw by (auto simp: dr dp classify_Fin initial_lastAlertType_def)
qed

theorem revisions_differ_witness:
  "(11::real) < 23 / 2 \<and> (23 / 2 :: real) \<le> 12 \<and> normal \<noteq> short_circuit
   \<and> dispatched (send_alert True normal (reading 230 (23 / 2) 2645))
   \<and> \<not> dispatched (send_alert_plain True (reading 230 (23 / 2) 2645))
   \<and> dispatched (send_alert True normal (reading 0 0 0))
   \<and> \<not> dispatched (send_alert_plain True (reading 0 0 0))
   \<and> (12::real) < 13
   \<and> \<not> dispatched (send_alert True short_circuit (reading 230 13 2990))
   \<and> dispatched (send_alert_plain True (reading 230 13 2990))"
  using revisions_differ [of "23 / 2" normal True 230 2645]
    revisions_differ [of 13 normal True 0 0]
    revisions_differ [of 13 normal True 230 2990]
  by simp

section \<open>Two requests at the same time\<close>

text \<open>
  C5. Two requests whose readings classify to the same fault condition arrive while
  \<open>lastAlertType\<close> is \<open>normal\<close>. Whatever the order in which the server starts the two
  handlers and settles their mails, once both have taken their decision exactly one of
  them decided to notify and the other did not, and \<open>lastAlertType\<close> is the fault
  condition. The test and the write of lines 106 to 115 lie before the only \<open>await\<close> of
  the handler, so no other handler runs between them.
\<close>

theorem one_of_two_notifies:
  "valid_current b1 = Some c1 \<and> valid_current b2 = Some c2
   \<and> classify c1 = k \<and> classify c2 = k \<and> k \<noteq> normal
   \<and> step\<^sup>*\<^sup>* (initial_lastAlertType, [Queued b1, Queued b2])
         (s, [Started d1 u1, Started d2 u2])
   \<longrightarrow> s = k
       \<and> ((d1 = Some (True, k) \<and> d2 = Some (False, k))
          \<or> (d1 = Some (False, k) \<and> d2 = Some (True, k)))"
proof
  assume h: "valid_current b1 = Some c1 \<and> valid_current b2 = Some c2
   \<and> classify c1 = k \<and> classify c2 = k \<and> k \<noteq> normal
   \<and> step\<^sup>*\<^sup>* (initial_lastAlertType, [Queued b1, Queued b2])
         (s, [Started d1 u1, Started d2 u2])"
  then have "race_inv k b1 b2 (s, [Started d1 u1, Started d2 u2])"
    using race_inv_steps [of b1 c1 b2 c2 k "(s, [Started d1 u1, Started d2 u2])"]
    by (simp add: initial_lastAlertType_def)
  then show "s = k
       \<and> ((d1 = Some (True, k) \<and> d2 = Some (False, k))
          \<or> (d1 = Some (False, k) \<and> d2 = Some (True, k)))"
    by simp
qed

theorem one_of_two_notifies_witness:
  "valid_current (reading 230 12 2760) = Some (Fin 12)
   \<and> valid_current (reading 231 13 3003) = Some (Fin 13)
   \<and> classify (Fin 12) = short_circuit \<and> classify (Fin 13) = short_circuit
   \<and> short_circuit \<noteq> normal
   \<and> step\<^sup>*\<^sup>* (initial_lastAlertType, [Queued (reading 230 12 2760), Queued (reading 231 13 3003)])
         (short_circuit,
          [Started (Some (False, short_circuit)) Returned,
           Started (Some (True, short_circuit)) (AwaitingSendMail short_circuit)])
   \<and> Some (False, short_circuit) \<noteq> Some (True, short_circuit)"
proof -
  let ?b1 = "reading 230 12 2760" and ?b2 = "reading 231 13 3003"
  have v: "valid_current ?b1 = Some (Fin 12)" "valid_current ?b2 = Some (Fin 13)"
    by (simp_all add: reading_def)
  have c: "classify (Fin 12) = short_circuit" "classify (Fin 13) = short_circuit"
    by (simp_all add: classify_Fin)
  have s2: "send_alert_sync normal ?b2
      = (Some (True, short_circuit),
         [ConsoleLog (NewAlertState normal short_circuit), SetLastAlertType short_circuit,
          SendMail (ShortCircuitMail (the ?b2))],
         AwaitingSendMail short_circuit)"
    by (simp add: sync_valid [OF v(2)] c render_def) (simp add: reading_def)
  have s1: "send_alert_sync short_circuit ?b1
      = (Some (False, short_circuit),
         [ConsoleLog (UnchangedOrNormal short_circuit), SetLastAlertType short_circuit,
          Respond 200 NoNewAlert],
         Returned)"
    by (simp add: sync_valid [OF v(1)] c)
  have st1: "step (normal, [Queued ?b1, Queued ?b2])
      (short_circuit,
       [Queued ?b1, Started (Some (True, short_circuit)) (AwaitingSendMail short_circuit)])"
    using step.start [of 1 "[Queued ?b1, Queued ?b2]" ?b2 normal, OF _ _ s2]
    by (simp add: replay_def)
  have st2: "step
      (short_circuit,
       [Queued ?b1, Started (Some (True, short_circuit)) (AwaitingSendMail short_circuit)])
      (short_circuit,
       [Started (Some (False, short_circuit)) Returned,
        Started (Some (True, short_circuit)) (AwaitingSendMail short_circuit)])"
    using step.start [of 0
        "[Queued ?b1, Started (Some (True, short_circuit)) (AwaitingSendMail short_circuit)]"
        ?b1 short_circuit, OF _ _ s1]
    by (simp add: replay_def)
  have r: "step\<^sup>*\<^sup>* (initial_lastAlertType, [Queued ?b1, Queued ?b2])
      (short_circuit,
       [Started (Some (False, short_circuit)) Returned,
        Started (Some (True, short_circuit)) (AwaitingSendMail short_circuit)])"
    unfolding initial_lastAlertType_def using st1 st2 by (rule converse_rtranclp_into_rtranclp [OF _ r_into_rtranclp])
  note t = one_of_two_notifies [of ?b1 "Fin 12" ?b2 "Fin 13" short_circuit short_circuit
      "Some (False, short_circuit)" Returned "Some (True, short_circuit)"
      "AwaitingSendMail short_circuit"]
  have n: "short_circuit \<noteq> normal" by simp
  have "short_circuit = short_circuit
     \<and> ((Some (False, short_circuit) = Some (True, short_circuit)
           \<and> Some (True, short_circuit) = Some (False, short_circuit))
        \<or> (Some (False, short_circuit) = Some (False, short_circuit)
           \<and> Some (True, short_circuit) = Some (True, short_circuit)))"
    using t v c n r by blast
  then show ?thesis using v c n r by simp
qed

section \<open>Client and server together\<close>

text \<open>
  C10. The client posts to /send-alert only for a reading that it classifies as a fault
  different from its own \<open>lastAlertTypeRef\<close>. So the polling flow never writes \<open>normal\<close>
  to the server's \<open>lastAlertType\<close> once it holds a fault. For three readings that are a
  short circuit, normal, and a short circuit again, from the initial state on both sides,
  only the first one is mailed: the third is posted, and the server answers that the
  condition is unchanged.
\<close>

theorem client_server_dedup:
  "(fst (fetchData r x) \<noteq> None \<longrightarrow> client_alert_type x \<noteq> normal \<and> client_alert_type x \<noteq> r)
   \<and> (snd st \<noteq> normal \<longrightarrow> snd (fst (poll_all st xs)) \<noteq> normal)
   \<and> (11 < c1 \<and> c2 \<le> 11 \<and> c2 \<noteq> 0 \<and> 11 < c3 \<longrightarrow>
        map classify [Fin c1, Fin c2, Fin c3] = [short_circuit, normal, short_circuit]
        \<and> map dispatched (snd (poll_all (initial_lastAlertType, initial_lastAlertType)
            [(d1, client_reading i1 t1 v1 c1 p1), (d2, client_reading i2 t2 v2 c2 p2),
             (d3, client_reading i3 t3 v3 c3 p3)]))
          = [True, False, False]
        \<and> snd (poll_all (initial_lastAlertType, initial_lastAlertType)
            [(d1, client_reading i1 t1 v1 c1 p1), (d2, client_reading i2 t2 v2 c2 p2),
             (d3, client_reading i3 t3 v3 c3 p3)]) ! 2
          = [ConsoleLog (UnchangedOrNormal short_circuit), SetLastAlertType short_circuit,
             Respond 200 NoNewAlert]
        \<and> fst (poll_all (initial_lastAlertType, initial_lastAlertType)
            [(d1, client_reading i1 t1 v1 c1 p1), (d2, client_reading i2 t2 v2 c2 p2),
             (d3, client_reading i3 t3 v3 c3 p3)])
          = (short_circuit, short_circuit))"
proof (intro conjI impI)
  assume "fst (fetchData r x) \<noteq> None"
  then show "client_alert_type x \<noteq> normal" "client_alert_type x \<noteq> r"
    by (auto simp: fetchData_def Let_def split: if_splits)
next
  assume "snd st \<noteq> normal"
  then show "snd (fst (poll_all st xs)) \<noteq> normal" by (rule poll_all_keeps_fault)
next
  assume h: "11 < c1 \<and> c2 \<le> 11 \<and> c2 \<noteq> 0 \<and> 11 < c3"
  let ?b1 = "sendEmailAlert (client_reading i1 t1 v1 c1 p1)"
  let ?b3 = "sendEmailAlert (client_reading i3 t3 v3 c3 p3)"
  let ?run = "poll_all (initial_lastAlertType, initial_lastAlertType)
            [(d1, client_reading i1 t1 v1 c1 p1), (d2, client_reading i2 t2 v2 c2 p2),
             (d3, client_reading i3 t3 v3 c3 p3)]"
  from h have c: "classify (Fin c1) = short_circuit" "classify (Fin c2) = normal"
    "classify (Fin c3) = short_circuit"
    by (simp_all add: classify_Fin)
  show "map classify [Fin c1, Fin c2, Fin c3] = [short_circuit, normal, short_circuit]"
    by (simp add: c)
  have t1: "dispatched (send_alert d1 normal ?b1)"
    using render_client_reading [of short_circuit i1 t1 v1 c1 p1]
    by (auto simp: send_alert_valid [OF valid_current_client_reading] c dispatched_def)
  have t3: "send_alert d3 short_circuit ?b3
      = [ConsoleLog (UnchangedOrNormal short_circuit), SetLastAlertType short_circuit,
             Respond 200 NoNewAlert]"
    by (simp add: send_alert_valid [OF valid_current_client_reading] c)
  have p: "?run = ((short_circuit, short_circuit),
        [send_alert d1 normal ?b1, [], send_alert d3 short_circuit ?b3])"
    by (simp add: poll_client_reading c initial_lastAlertType_def)
  show "map dispatched (snd ?run) = [True, False, False]"
    unfolding p using t1 by (simp add: t3) (simp add: dispatched_def)
  show "snd ?run ! 2
          = [ConsoleLog (UnchangedOrNormal short_circuit), SetLastAlertType short_circuit,
             Respond 200 NoNewAlert]"
    unfolding p by (simp add: t3)
  show "fst ?run = (short_circuit, short_circuit)"
    unfolding p by simp
qed

theorem client_server_dedup_witness:
  "fst (fetchData normal (client_reading ''r1'' ''2025-10-01T08:00:00.000Z'' 230 12 2760)) \<noteq> None
   \<and> client_alert_type (client_reading ''r1'' ''2025-10-01T08:00:00.000Z'' 230 12 2760) \<noteq> normal
   \<and> snd (normal, short_circuit) \<noteq> normal
   \<and> snd (fst (poll_all (normal, short_circuit)
        [(True, client_reading ''r2'' ''2025-10-01T08:00:02.000Z'' 230 5 1150)])) \<noteq> normal
   \<and> (11::real) < 12 \<and> (5::real) \<le> 11 \<and> (5::real) \<noteq> 0
   \<and> map dispatched (snd (poll_all (initial_lastAlertType, initial_lastAlertType)
            [(True, client_reading ''r1'' ''2025-10-01T08:00:00.000Z'' 230 12 2760),
             (True, client_reading ''r2'' ''2025-10-01T08:00:02.000Z'' 230 5 1150),
             (True, client_reading ''r3'' ''2025-10-01T08:00:04.000Z'' 230 12 2760)]))
          = [True, False, False]"
proof -
  let ?x1 = "client_reading ''r1'' ''2025-10-01T08:00:00.000Z'' 230 12 2760"
  let ?x2 = "client_reading ''r2'' ''2025-10-01T08:00:02.000Z'' 230 5 1150"
  have f: "fst (fetchData normal ?x1) \<noteq> None"
    by (simp add: fetchData_def client_alert_type_eq client_reading_def classify_Fin)
  have s: "snd (normal, short_circuit) \<noteq> normal"
    by simp
  have n: "(11::real) < 12 \<and> (5::real) \<le> 11 \<and> (5::real) \<noteq> 0 \<and> (11::real) < 12"
    by simp
  note t = client_server_dedup [of normal ?x1 "(normal, short_circuit)" "[(True, ?x2)]"
        12 5 12 True "''r1''" "''2025-10-01T08:00:00.000Z''" 230 2760
        True "''r2''" "''2025-10-01T08:00:02.000Z''" 230 1150
        True "''r3''" "''2025-10-01T08:00:04.000Z''" 230 2760]
  show ?thesis using f s n t by blast
qed

end
